theory Spec2Isabelle
  imports Main
begin

section \<open>The notebook document\<close>

text \<open>
  The repository is one Jupyter notebook, \<^verbatim>\<open>rnns/1 RNN architecture overview.ipynb\<close>.
  A notebook is a JSON document: a list of cells, each code cell holding its
  \<^verbatim>\<open>source\<close> (a list of text lines), its \<^verbatim>\<open>execution_count\<close> and the
  \<^verbatim>\<open>outputs\<close> recorded when it was last run (here always streams: a stream name
  and the lines written to it).
\<close>

record stream_output =
  stream_name :: string
  stream_text :: "string list"

subsection \<open>Abstract syntax of the Python the cells contain\<close>

text \<open>
  Expressions follow Python's \<^verbatim>\<open>ast\<close> module: a call has a callee name, positional
  arguments and keyword arguments.
\<close>

datatype expr =
    Num nat
  | Str string
  | Bool bool
  | Name string
  | Tuple "expr list"
  | List "expr list"
  | Call string "expr list" "(string \<times> expr) list"

text \<open>
  A line of a cell is a comment, a blank line, an IPython shell escape
  (\<^verbatim>\<open>!command\<close>), a \<^verbatim>\<open>from m import a, b\<close>, an assignment to a name or an
  expression statement.
\<close>

datatype stmt =
    Comment string
  | Blank
  | Shell string
  | ImportFrom string "string list"
  | Assign string expr
  | Expr expr

text \<open>
  A code cell: the three fields of the JSON document, and \<open>code\<close>, the abstract syntax
  of \<open>source\<close> (lemma \<open>source_is_rendered_code\<close> below shows that printing
  \<open>code\<close> gives back \<open>source\<close> character by character).
\<close>

record cell =
  execution_count :: nat
  outputs :: "stream_output list"
  source :: "string list"
  code :: "stmt list"

subsection \<open>Printing the abstract syntax as Python text\<close>

fun join :: "string \<Rightarrow> string list \<Rightarrow> string" where
  "join sep [] = []"
| "join sep [x] = x"
| "join sep (x # y # ys) = x @ sep @ join sep (y # ys)"

definition digit_char :: "nat \<Rightarrow> char" where
  "digit_char d = ''0123456789'' ! d"

fun show_nat :: "nat \<Rightarrow> string" where
  "show_nat n = (if n < 10 then [digit_char n] else show_nat (n div 10) @ [digit_char (n mod 10)])"

declare show_nat.simps [simp del]

fun show_expr :: "expr \<Rightarrow> string"
  and show_exprs :: "expr list \<Rightarrow> string list"
  and show_keywords :: "(string \<times> expr) list \<Rightarrow> string list" where
  "show_expr (Num n) = show_nat n"
| "show_expr (Str s) = [CHR 0x27] @ s @ [CHR 0x27]"
| "show_expr (Bool b) = (if b then ''True'' else ''False'')"
| "show_expr (Name x) = x"
| "show_expr (Tuple es) = ''('' @ join '', '' (show_exprs es) @ '')''"
| "show_expr (List es) = ''['' @ join '', '' (show_exprs es) @ '']''"
| "show_expr (Call f args kws) =
     f @ ''('' @ join '', '' (show_exprs args @ show_keywords kws) @ '')''"
| "show_exprs [] = []"
| "show_exprs (e # es) = show_expr e # show_exprs es"
| "show_keywords [] = []"
| "show_keywords (kw # kws) = (fst kw @ ''='' @ show_expr (snd kw)) # show_keywords kws"

text \<open>
  The notebook lays out a call whose only argument is a list display with one
  element per line, indented by four spaces; every other statement is one line.
\<close>

fun list_lines :: "string list \<Rightarrow> string list" where
  "list_lines [] = []"
| "list_lines [x] = [''    '' @ x]"
| "list_lines (x # y # ys) = (''    '' @ x @ '','') # list_lines (y # ys)"

fun show_stmt :: "stmt \<Rightarrow> string list" where
  "show_stmt (Comment s) = [''#'' @ s]"
| "show_stmt Blank = [[]]"
| "show_stmt (Shell s) = [''!'' @ s]"
| "show_stmt (ImportFrom m ns) = [''from '' @ m @ '' import '' @ join '', '' ns]"
| "show_stmt (Assign x (Call f [List es] [])) =
     [x @ '' = '' @ f @ ''([''] @ list_lines (show_exprs es) @ [''])'']"
| "show_stmt (Assign x e) = [x @ '' = '' @ show_expr e]"
| "show_stmt (Expr e) = [show_expr e]"

text \<open>
  The JSON \<^verbatim>\<open>source\<close> array ends every line but the last with a newline.
\<close>

fun terminate_lines :: "string list \<Rightarrow> string list" where
  "terminate_lines [] = []"
| "terminate_lines [l] = [l]"
| "terminate_lines (l # m # ls) = (l @ ''\<newline>'') # terminate_lines (m # ls)"

definition render :: "stmt list \<Rightarrow> string list" where
  "render ss = terminate_lines (concat (map show_stmt ss))"

subsection \<open>The seven code cells\<close>

text \<open>
  The notebook has thirteen cells; those at (zero-based) positions 0, 1, 4, 6, 10 and
  12 are markdown prose. The code cells are named by their position.
\<close>

definition printer :: string where
  "printer = ''sequential_model_to_ascii_printout''"

definition cell2 :: cell where
  "cell2 = \<lparr>
     execution_count = 1,
     outputs = [\<lparr>stream_name = ''stdout'', stream_text =
       [CHR 0x1B # ''[33mYou are using pip version 19.0.3, however version 19.1.1 is available.''
          @ [CHR 0x0D, CHR 0x0A],
        ''You should consider upgrading via the 'pip install --upgrade pip' command.''
          @ [CHR 0x1B] @ ''[0m'' @ [CHR 0x0D, CHR 0x0A]]\<rparr>],
     source =
       [''# if you need to install that\<newline>'',
        ''!pip install -q keras_sequential_ascii''],
     code =
       [Comment '' if you need to install that'',
        Shell ''pip install -q keras_sequential_ascii'']\<rparr>"

definition cell3 :: cell where
  "cell3 = \<lparr>
     execution_count = 2,
     outputs = [\<lparr>stream_name = ''stderr'', stream_text =
       [''Using TensorFlow backend.\<newline>'']\<rparr>],
     source =
       [''from keras.models import Sequential\<newline>'',
        ''from keras.layers import Flatten, SimpleRNN, Dense, Dropout, LSTM, GRU, Bidirectional\<newline>'',
        ''\<newline>'',
        ''from keras_sequential_ascii import sequential_model_to_ascii_printout''],
     code =
       [ImportFrom ''keras.models'' [''Sequential''],
        ImportFrom ''keras.layers''
          [''Flatten'', ''SimpleRNN'', ''Dense'', ''Dropout'', ''LSTM'', ''GRU'', ''Bidirectional''],
        Blank,
        ImportFrom ''keras_sequential_ascii'' [''sequential_model_to_ascii_printout'']]\<rparr>"

definition cell5 :: cell where
  "cell5 = \<lparr>
     execution_count = 3,
     outputs = [\<lparr>stream_name = ''stdout'', stream_text =
       [''           OPERATION           DATA DIMENSIONS   WEIGHTS(N)   WEIGHTS(%)\<newline>'',
        ''\<newline>'',
        ''               Input   #####     10   26\<newline>'',
        ''           SimpleRNN   ????? -------------------      1888    92.0%\<newline>'',
        ''                tanh   #####          32\<newline>'',
        ''               Dense   XXXXX -------------------       165     8.0%\<newline>'',
        ''             softmax   #####           5\<newline>'']\<rparr>],
     source =
       [''model = Sequential([\<newline>'',
        ''    SimpleRNN(32, return_sequences=False, input_shape=(10, 26)),\<newline>'',
        ''    Dense(5, activation='softmax')\<newline>'',
        ''])\<newline>'',
        ''\<newline>'',
        ''sequential_model_to_ascii_printout(model)''],
     code =
       [Assign ''model'' (Call ''Sequential'' [List
          [Call ''SimpleRNN'' [Num 32]
             [(''return_sequences'', Bool False), (''input_shape'', Tuple [Num 10, Num 26])],
           Call ''Dense'' [Num 5] [(''activation'', Str ''softmax'')]]] []),
        Blank,
        Expr (Call ''sequential_model_to_ascii_printout'' [Name ''model''] [])]\<rparr>"

definition cell7 :: cell where
  "cell7 = \<lparr>
     execution_count = 4,
     outputs = [\<lparr>stream_name = ''stdout'', stream_text =
       [''           OPERATION           DATA DIMENSIONS   WEIGHTS(N)   WEIGHTS(%)\<newline>'',
        ''\<newline>'',
        ''               Input   #####     10   26\<newline>'',
        ''                LSTM   LLLLL -------------------      7552    97.9%\<newline>'',
        ''                tanh   #####          32\<newline>'',
        ''               Dense   XXXXX -------------------       165     2.1%\<newline>'',
        ''             softmax   #####           5\<newline>'']\<rparr>],
     source =
       [''model = Sequential([\<newline>'',
        ''    LSTM(32, input_shape=(10, 26)),\<newline>'',
        ''    Dense(5, activation='softmax')\<newline>'',
        ''])\<newline>'',
        ''\<newline>'',
        ''sequential_model_to_ascii_printout(model)''],
     code =
       [Assign ''model'' (Call ''Sequential'' [List
          [Call ''LSTM'' [Num 32] [(''input_shape'', Tuple [Num 10, Num 26])],
           Call ''Dense'' [Num 5] [(''activation'', Str ''softmax'')]]] []),
        Blank,
        Expr (Call ''sequential_model_to_ascii_printout'' [Name ''model''] [])]\<rparr>"

definition cell8 :: cell where
  "cell8 = \<lparr>
     execution_count = 5,
     outputs = [],
     source =
       [''model = Sequential([\<newline>'',
        ''    Bidirectional(LSTM(32, input_shape=(10, 26), return_sequences=True)),\<newline>'',
        ''    Bidirectional(LSTM(32)),\<newline>'',
        ''    Dense(5, activation='softmax')\<newline>'',
        ''])\<newline>'',
        ''\<newline>'',
        ''# sequential_model_to_ascii_printout(model)''],
     code =
       [Assign ''model'' (Call ''Sequential'' [List
          [Call ''Bidirectional''
             [Call ''LSTM'' [Num 32]
                [(''input_shape'', Tuple [Num 10, Num 26]), (''return_sequences'', Bool True)]] [],
           Call ''Bidirectional'' [Call ''LSTM'' [Num 32] []] [],
           Call ''Dense'' [Num 5] [(''activation'', Str ''softmax'')]]] []),
        Blank,
        Comment '' sequential_model_to_ascii_printout(model)'']\<rparr>"

definition cell9 :: cell where
  "cell9 = \<lparr>
     execution_count = 6,
     outputs = [\<lparr>stream_name = ''stdout'', stream_text =
       [''           OPERATION           DATA DIMENSIONS   WEIGHTS(N)   WEIGHTS(%)\<newline>'',
        ''\<newline>'',
        ''               Input   #####     10   26\<newline>'',
        ''                LSTM   LLLLL -------------------      7552    47.1%\<newline>'',
        ''                tanh   #####     10   32\<newline>'',
        ''                LSTM   LLLLL -------------------      8320    51.9%\<newline>'',
        ''                tanh   #####          32\<newline>'',
        ''               Dense   XXXXX -------------------       165     1.0%\<newline>'',
        ''             softmax   #####           5\<newline>'']\<rparr>],
     source =
       [''model = Sequential([\<newline>'',
        ''    LSTM(32, input_shape=(10, 26), return_sequences=True),\<newline>'',
        ''    LSTM(32),\<newline>'',
        ''    Dense(5, activation='softmax')\<newline>'',
        ''])\<newline>'',
        ''\<newline>'',
        ''sequential_model_to_ascii_printout(model)''],
     code =
       [Assign ''model'' (Call ''Sequential'' [List
          [Call ''LSTM'' [Num 32]
             [(''input_shape'', Tuple [Num 10, Num 26]), (''return_sequences'', Bool True)],
           Call ''LSTM'' [Num 32] [],
           Call ''Dense'' [Num 5] [(''activation'', Str ''softmax'')]]] []),
        Blank,
        Expr (Call ''sequential_model_to_ascii_printout'' [Name ''model''] [])]\<rparr>"

definition cell11 :: cell where
  "cell11 = \<lparr>
     execution_count = 7,
     outputs = [\<lparr>stream_name = ''stdout'', stream_text =
       [''           OPERATION           DATA DIMENSIONS   WEIGHTS(N)   WEIGHTS(%)\<newline>'',
        ''\<newline>'',
        ''               Input   #####     10   26\<newline>'',
        ''                 GRU   LLLLL -------------------      5664    46.9%\<newline>'',
        ''                tanh   #####     10   32\<newline>'',
        ''                 GRU   LLLLL -------------------      6240    51.7%\<newline>'',
        ''                tanh   #####          32\<newline>'',
        ''               Dense   XXXXX -------------------       165     1.4%\<newline>'',
        ''             softmax   #####           5\<newline>'']\<rparr>],
     source =
       [''# GRU is a drop-on replacement\<newline>'',
        ''model = Sequential([\<newline>'',
        ''    GRU(32, input_shape=(10, 26), return_sequences=True),\<newline>'',
        ''    GRU(32),\<newline>'',
        ''    Dense(5, activation='softmax')\<newline>'',
        ''])\<newline>'',
        ''\<newline>'',
        ''sequential_model_to_ascii_printout(model)''],
     code =
       [Comment '' GRU is a drop-on replacement'',
        Assign ''model'' (Call ''Sequential'' [List
          [Call ''GRU'' [Num 32]
             [(''input_shape'', Tuple [Num 10, Num 26]), (''return_sequences'', Bool True)],
           Call ''GRU'' [Num 32] [],
           Call ''Dense'' [Num 5] [(''activation'', Str ''softmax'')]]] []),
        Blank,
        Expr (Call ''sequential_model_to_ascii_printout'' [Name ''model''] [])]\<rparr>"

definition code_cells :: "cell list" where
  "code_cells = [cell2, cell3, cell5, cell7, cell8, cell9, cell11]"

section \<open>Reading the recorded tables\<close>

text \<open>
  The printer's output is recorded in the notebook as lines of text. A row is read
  the way Python's \<^verbatim>\<open>str.split\<close> would: into words separated by white space.
  The header's titles are separated by two or more spaces (one title, DATA DIMENSIONS,
  has a single space inside).
\<close>

definition is_space :: "char \<Rightarrow> bool" where
  "is_space c \<longleftrightarrow> c = CHR '' '' \<or> c = CHR ''\<newline>'' \<or> c = CHR 0x0D \<or> c = CHR 0x09"

definition emit :: "string \<Rightarrow> string list" where
  "emit acc = (if acc = [] then [] else [rev acc])"

fun words_acc :: "string \<Rightarrow> string \<Rightarrow> string list" where
  "words_acc acc [] = emit acc"
| "words_acc acc (c # cs) =
     (if is_space c then emit acc @ words_acc [] cs else words_acc (c # acc) cs)"

definition split_words :: "string \<Rightarrow> string list" where
  "split_words l = words_acc [] l"

fun fields_acc :: "string \<Rightarrow> string \<Rightarrow> string list" where
  "fields_acc acc [] = emit acc"
| "fields_acc acc [c] = (if is_space c then emit acc else emit (c # acc))"
| "fields_acc acc (c # d # cs) =
     (if is_space c \<and> (is_space d \<or> acc = [] \<or> c \<noteq> CHR '' '')
      then emit acc @ fields_acc [] (d # cs)
      else fields_acc (c # acc) (d # cs))"

definition split_fields :: "string \<Rightarrow> string list" where
  "split_fields l = fields_acc [] l"

definition digit_value :: "char \<Rightarrow> nat option" where
  "digit_value c = map_of (zip ''0123456789'' [0, 1, 2, 3, 4, 5, 6, 7, 8, 9]) c"

fun parse_nat_acc :: "nat \<Rightarrow> string \<Rightarrow> nat option" where
  "parse_nat_acc n [] = Some n"
| "parse_nat_acc n (c # cs) =
     (case digit_value c of None \<Rightarrow> None | Some d \<Rightarrow> parse_nat_acc (10 * n + d) cs)"

definition parse_nat :: "string \<Rightarrow> nat option" where
  "parse_nat s = (if s = [] then None else parse_nat_acc 0 s)"

fun parse_nats :: "string list \<Rightarrow> nat list option" where
  "parse_nats [] = Some []"
| "parse_nats (w # ws) =
     (case parse_nat w of None \<Rightarrow> None
      | Some n \<Rightarrow> (case parse_nats ws of None \<Rightarrow> None | Some ns \<Rightarrow> Some (n # ns)))"

text \<open>
  Two kinds of row alternate in a table: a data row (operation name, the glyph
  \<^verbatim>\<open>#####\<close>, the data dimensions) and a weight row (operation name, a glyph, a
  rule of dashes, the weight count and the weight percentage).
\<close>

datatype table_row =
    Data string "nat list"
  | Weights string nat string

definition parse_row :: "string \<Rightarrow> table_row option" where
  "parse_row l =
     (case split_words l of
        [opn, glyph, bar, n, pct] \<Rightarrow>
          (case parse_nat n of
             Some k \<Rightarrow>
               if bar \<noteq> [] \<and> list_all (\<lambda>c. c = CHR ''-'') bar \<and> pct \<noteq> [] \<and> last pct = CHR ''%''
               then Some (Weights opn k pct) else None
           | None \<Rightarrow> None)
      | opn # glyph # dims \<Rightarrow>
          (case parse_nats dims of
             Some ds \<Rightarrow> if glyph = ''#####'' \<and> ds \<noteq> [] then Some (Data opn ds) else None
           | None \<Rightarrow> None)
      | _ \<Rightarrow> None)"

fun parse_rows :: "string list \<Rightarrow> table_row list option" where
  "parse_rows [] = Some []"
| "parse_rows (l # ls) =
     (case parse_row l of None \<Rightarrow> None
      | Some r \<Rightarrow> (case parse_rows ls of None \<Rightarrow> None | Some rs \<Rightarrow> Some (r # rs)))"


definition table_lines :: "cell \<Rightarrow> string list" where
  "table_lines c = (case outputs c of [out] \<Rightarrow> stream_text out | _ \<Rightarrow> [])"

definition table_header :: "cell \<Rightarrow> string list" where
  "table_header c = (case table_lines c of h # _ \<Rightarrow> split_fields h | [] \<Rightarrow> [])"

definition table_rows :: "cell \<Rightarrow> table_row list option" where
  "table_rows c =
     (case table_lines c of h # b # ls \<Rightarrow> if split_words b = [] then parse_rows ls else None
      | _ \<Rightarrow> None)"

fun weight_rows :: "table_row list \<Rightarrow> (string \<times> nat) list" where
  "weight_rows [] = []"
| "weight_rows (Weights opn n pct # rs) = (opn, n) # weight_rows rs"
| "weight_rows (Data opn ds # rs) = weight_rows rs"

fun data_rows :: "table_row list \<Rightarrow> (string \<times> nat list) list" where
  "data_rows [] = []"
| "data_rows (Data opn ds # rs) = (opn, ds) # data_rows rs"
| "data_rows (Weights opn n pct # rs) = data_rows rs"

definition printed_weights :: "cell \<Rightarrow> (string \<times> nat) list" where
  "printed_weights c = (case table_rows c of Some rs \<Rightarrow> weight_rows rs | None \<Rightarrow> [])"

definition printed_dimensions :: "cell \<Rightarrow> nat list list" where
  "printed_dimensions c = (case table_rows c of Some rs \<Rightarrow> map snd (data_rows rs) | None \<Rightarrow> [])"

section \<open>Reading the models off the abstract syntax\<close>

fun assignments :: "stmt list \<Rightarrow> (string \<times> expr) list" where
  "assignments [] = []"
| "assignments (Assign x e # ss) = (x, e) # assignments ss"
| "assignments (s # ss) = assignments ss"

fun stacked :: "expr \<Rightarrow> expr list option" where
  "stacked (Call f [List es] []) = (if f = ''Sequential'' then Some es else None)"
| "stacked e = None"

definition model_layers :: "cell \<Rightarrow> expr list option" where
  "model_layers c = (case assignments (code c) of [(x, e)] \<Rightarrow> stacked e | _ \<Rightarrow> None)"

definition builds_model :: "cell \<Rightarrow> bool" where
  "builds_model c \<longleftrightarrow> model_layers c \<noteq> None"

fun callee :: "expr \<Rightarrow> string" where
  "callee (Call f args kws) = f"
| "callee e = []"

fun units :: "expr \<Rightarrow> nat option" where
  "units (Call f [Num u] kws) = Some u"
| "units e = None"

fun keyword_args :: "expr \<Rightarrow> (string \<times> expr) list" where
  "keyword_args (Call f args kws) = kws"
| "keyword_args e = []"

fun shape_value :: "expr \<Rightarrow> nat list option" where
  "shape_value (Tuple [Num a, Num b]) = Some [a, b]"
| "shape_value e = None"

definition input_shape :: "expr \<Rightarrow> nat list option" where
  "input_shape l = (case map_of (keyword_args l) ''input_shape'' of Some t \<Rightarrow> shape_value t | None \<Rightarrow> None)"

section \<open>Parameter-count formulas\<close>

text \<open>
  The standard formulas for the number of trainable weights, for \<open>u\<close> units on an
  input of \<open>d\<close> features with one bias per unit: a simple recurrent layer has an input
  kernel, a recurrent kernel and a bias; an LSTM has four such gates; a dense layer has
  a kernel and a bias.
\<close>

definition simple_rnn_weights :: "nat \<Rightarrow> nat \<Rightarrow> nat" where
  "simple_rnn_weights u d = u * (d + u + 1)"

definition lstm_weights :: "nat \<Rightarrow> nat \<Rightarrow> nat" where
  "lstm_weights u d = 4 * u * (d + u + 1)"

definition dense_weights :: "nat \<Rightarrow> nat \<Rightarrow> nat" where
  "dense_weights n d = n * (d + 1)"

definition formula_weights :: "string \<Rightarrow> nat \<Rightarrow> nat \<Rightarrow> nat option" where
  "formula_weights k u d =
     (if k = ''SimpleRNN'' then Some (simple_rnn_weights u d)
      else if k = ''LSTM'' then Some (lstm_weights u d)
      else if k = ''Dense'' then Some (dense_weights u d)
      else None)"

text \<open>
  The weights the formulas give for a layer stack: each layer's input feature count is
  the unit count of the layer before it, the first layer's is the last entry of its
  \<^verbatim>\<open>input_shape\<close>.
\<close>

fun stack_weights :: "nat \<Rightarrow> expr list \<Rightarrow> (string \<times> nat) list option" where
  "stack_weights d [] = Some []"
| "stack_weights d (l # ls) =
     (case units l of None \<Rightarrow> None
      | Some u \<Rightarrow>
         (case formula_weights (callee l) u d of None \<Rightarrow> None
          | Some w \<Rightarrow>
             (case stack_weights u ls of None \<Rightarrow> None
              | Some ws \<Rightarrow> Some ((callee l, w) # ws))))"

definition model_weights :: "cell \<Rightarrow> (string \<times> nat) list option" where
  "model_weights c =
     (case model_layers c of
        Some (l # ls) \<Rightarrow>
          (case input_shape l of Some [t, d] \<Rightarrow> stack_weights d (l # ls) | _ \<Rightarrow> None)
      | _ \<Rightarrow> None)"

section \<open>The words of the Python text\<close>

text \<open>
  The words of a line are its maximal runs of letters, digits and underscores, read
  from the part of the line before a comment sign (a \<^verbatim>\<open>#\<close> outside a quoted
  string). A line whose first visible character is \<^verbatim>\<open>!\<close> is handed by IPython to
  the shell and is not Python.
\<close>

definition is_ident_char :: "char \<Rightarrow> bool" where
  "is_ident_char c \<longleftrightarrow>
     c \<in> set ''abcdefghijklmnopqrstuvwxyzABCDEFGHIJKLMNOPQRSTUVWXYZ0123456789_''"

fun idents_acc :: "string \<Rightarrow> string \<Rightarrow> string list" where
  "idents_acc acc [] = emit acc"
| "idents_acc acc (c # cs) =
     (if is_ident_char c then idents_acc (c # acc) cs else emit acc @ idents_acc [] cs)"

definition idents :: "string \<Rightarrow> string list" where
  "idents l = idents_acc [] l"

fun code_part :: "char option \<Rightarrow> string \<Rightarrow> string" where
  "code_part q [] = []"
| "code_part None (c # cs) =
     (if c = CHR ''#'' then []
      else c # code_part (if c = CHR 0x27 \<or> c = CHR 0x22 then Some c else None) cs)"
| "code_part (Some q) (c # cs) = c # code_part (if c = q then None else Some q) cs"

definition is_shell_line :: "string \<Rightarrow> bool" where
  "is_shell_line l = (case dropWhile is_space l of c # cs \<Rightarrow> c = CHR ''!'' | [] \<Rightarrow> False)"

definition python_words :: "cell \<Rightarrow> string list" where
  "python_words c =
     concat (map (\<lambda>l. idents (code_part None l)) (filter (\<lambda>l. \<not> is_shell_line l) (source c)))"

section \<open>Statements of a cell\<close>

text \<open>
  The call \<^verbatim>\<open>sequential_model_to_ascii_printout(model)\<close>, and whether a cell makes it.
\<close>

definition printer_call :: expr where
  "printer_call = Call printer [Name ''model''] []"

definition calls_printer :: "cell \<Rightarrow> bool" where
  "calls_printer c \<longleftrightarrow> Expr printer_call \<in> set (code c)"

text \<open>
  Comments and blank lines do nothing; what is left of a cell are its effective
  statements. The two-step flow is an assignment of a \<^verbatim>\<open>Sequential([...])\<close> to
  \<^verbatim>\<open>model\<close> followed by the printer call on \<^verbatim>\<open>model\<close>.
\<close>

fun is_remark :: "stmt \<Rightarrow> bool" where
  "is_remark (Comment s) = True"
| "is_remark Blank = True"
| "is_remark s = False"

definition effective :: "stmt list \<Rightarrow> stmt list" where
  "effective ss = filter (\<lambda>s. \<not> is_remark s) ss"

fun two_step :: "stmt list \<Rightarrow> bool" where
  "two_step [Assign x e, Expr p] = (x = ''model'' \<and> stacked e \<noteq> None \<and> p = printer_call)"
| "two_step ss = False"

definition two_step_flow :: "cell \<Rightarrow> bool" where
  "two_step_flow c = two_step (effective (code c))"

text \<open>
  The names a cell imports and the modules they come from, and the shell command of
  cell 2.
\<close>

fun stmt_imports :: "stmt \<Rightarrow> (string \<times> string) list" where
  "stmt_imports (ImportFrom m ns) = map (\<lambda>n. (n, m)) ns"
| "stmt_imports s = []"

definition imports_of :: "cell list \<Rightarrow> (string \<times> string) list" where
  "imports_of cs = concat (map (\<lambda>c. concat (map stmt_imports (code c))) cs)"

definition imported_from :: "string \<Rightarrow> string option" where
  "imported_from n = map_of (imports_of code_cells) n"

definition external_modules :: "string list" where
  "external_modules = [''keras.models'', ''keras.layers'', ''keras_sequential_ascii'']"

definition pip_install :: stmt where
  "pip_install = Shell ''pip install -q keras_sequential_ascii''"

section \<open>Layer descriptors\<close>

text \<open>
  A recurrent layer is written \<^verbatim>\<open>K(u, ...)\<close> with \<open>K\<close> one of SimpleRNN, LSTM, GRU,
  one positional argument (the unit count) and keyword arguments among
  \<^verbatim>\<open>input_shape\<close> (a pair of numbers) and \<^verbatim>\<open>return_sequences\<close> (a truth value).
  A dense layer is \<^verbatim>\<open>Dense(n)\<close> or \<^verbatim>\<open>Dense(n, activation='...')\<close>. The wrapper
  \<^verbatim>\<open>Bidirectional(...)\<close> takes one recurrent layer and nothing else.
\<close>

definition recurrent_kinds :: "string list" where
  "recurrent_kinds = [''SimpleRNN'', ''LSTM'', ''GRU'']"

fun is_bool :: "expr \<Rightarrow> bool" where
  "is_bool (Bool b) = True"
| "is_bool e = False"

definition recurrent_keyword :: "string \<times> expr \<Rightarrow> bool" where
  "recurrent_keyword kw \<longleftrightarrow>
     fst kw = ''input_shape'' \<and> shape_value (snd kw) \<noteq> None
     \<or> fst kw = ''return_sequences'' \<and> is_bool (snd kw)"

fun plain_recurrent :: "expr \<Rightarrow> bool" where
  "plain_recurrent (Call k [Num u] kws) =
     (k \<in> set recurrent_kinds \<and> distinct (map fst kws) \<and> list_all recurrent_keyword kws)"
| "plain_recurrent e = False"

fun dense_layer :: "expr \<Rightarrow> bool" where
  "dense_layer (Call k [Num n] []) = (k = ''Dense'')"
| "dense_layer (Call k [Num n] [(key, Str a)]) = (k = ''Dense'' \<and> key = ''activation'')"
| "dense_layer e = False"

fun bidirectional :: "expr \<Rightarrow> bool" where
  "bidirectional (Call k [inner] []) = (k = ''Bidirectional'' \<and> plain_recurrent inner)"
| "bidirectional e = False"

definition layer_descriptor :: "expr \<Rightarrow> bool" where
  "layer_descriptor l \<longleftrightarrow> plain_recurrent l \<or> dense_layer l \<or> bidirectional l"

definition recurrent_layer :: "expr \<Rightarrow> bool" where
  "recurrent_layer l \<longleftrightarrow> plain_recurrent l \<or> bidirectional l"

fun dense_with_activation :: "expr \<Rightarrow> bool" where
  "dense_with_activation (Call k [Num n] [(key, Str a)]) = (k = ''Dense'' \<and> key = ''activation'')"
| "dense_with_activation e = False"

text \<open>
  The shape of a stack: one or more recurrent layers, then a dense layer with an
  activation.
\<close>

definition stack_shape :: "expr list \<Rightarrow> bool" where
  "stack_shape ls \<longleftrightarrow>
     ls \<noteq> [] \<and> butlast ls \<noteq> [] \<and> list_all recurrent_layer (butlast ls)
     \<and> dense_with_activation (last ls)"

definition stack_ok :: "cell \<Rightarrow> bool" where
  "stack_ok c = (case model_layers c of Some ls \<Rightarrow> stack_shape ls | None \<Rightarrow> False)"

definition follows_flow :: "cell \<Rightarrow> bool" where
  "follows_flow c \<longleftrightarrow> stack_ok c \<and> two_step_flow c"

definition wraps_bidirectional :: "cell \<Rightarrow> bool" where
  "wraps_bidirectional c =
     (case model_layers c of
        Some ls \<Rightarrow> list_ex (\<lambda>l. callee l = ''Bidirectional'') ls | None \<Rightarrow> False)"

text \<open>
  Every call expression of a cell, nested ones included; the layer calls are those
  that construct neither the \<^verbatim>\<open>Sequential\<close> container nor call the printer.
\<close>

fun calls_in :: "expr \<Rightarrow> expr list"
  and calls_in_list :: "expr list \<Rightarrow> expr list"
  and calls_in_keywords :: "(string \<times> expr) list \<Rightarrow> expr list" where
  "calls_in (Num n) = []"
| "calls_in (Str s) = []"
| "calls_in (Bool b) = []"
| "calls_in (Name x) = []"
| "calls_in (Tuple es) = calls_in_list es"
| "calls_in (List es) = calls_in_list es"
| "calls_in (Call f args kws) = Call f args kws # calls_in_list args @ calls_in_keywords kws"
| "calls_in_list [] = []"
| "calls_in_list (e # es) = calls_in e @ calls_in_list es"
| "calls_in_keywords [] = []"
| "calls_in_keywords (kw # kws) = calls_in (snd kw) @ calls_in_keywords kws"

fun stmt_calls :: "stmt \<Rightarrow> expr list" where
  "stmt_calls (Assign x e) = calls_in e"
| "stmt_calls (Expr e) = calls_in e"
| "stmt_calls s = []"

definition cell_calls :: "cell \<Rightarrow> expr list" where
  "cell_calls c = concat (map stmt_calls (code c))"

definition layer_calls :: "cell \<Rightarrow> expr list" where
  "layer_calls c = filter (\<lambda>e. callee e \<noteq> ''Sequential'' \<and> callee e \<noteq> printer) (cell_calls c)"

definition consumed_by_sequential :: "cell \<Rightarrow> bool" where
  "consumed_by_sequential c \<longleftrightarrow>
     layer_calls c = (case model_layers c of Some ls \<Rightarrow> calls_in_list ls | None \<Rightarrow> [])
     \<and> list_all (\<lambda>a. fst a = ''model'' \<and> stacked (snd a) \<noteq> None) (assignments (code c))"

definition descriptors_ok :: "cell \<Rightarrow> bool" where
  "descriptors_ok c \<longleftrightarrow> list_all layer_descriptor (layer_calls c) \<and> consumed_by_sequential c"

section \<open>Kinds of operation\<close>

text \<open>
  The three operations the specification names: importing from Keras or from
  \<^verbatim>\<open>keras_sequential_ascii\<close>, stacking layer descriptors into a
  \<^verbatim>\<open>Sequential\<close>, and calling the printer on a name.
\<close>

fun is_import :: "stmt \<Rightarrow> bool" where
  "is_import (ImportFrom m ns) = (m \<in> set external_modules)"
| "is_import s = False"

fun is_stacking :: "stmt \<Rightarrow> bool" where
  "is_stacking (Assign x e) =
     (case stacked e of Some ls \<Rightarrow> list_all layer_descriptor ls | None \<Rightarrow> False)"
| "is_stacking s = False"

fun is_printing :: "stmt \<Rightarrow> bool" where
  "is_printing (Expr (Call f [Name x] [])) = (f = printer)"
| "is_printing s = False"

definition claimed_operation :: "stmt \<Rightarrow> bool" where
  "claimed_operation s \<longleftrightarrow> is_remark s \<or> is_import s \<or> is_stacking s \<or> is_printing s"

text \<open>
  Python keywords that would define a function or class, and those that would raise,
  catch or define an exception.
\<close>

definition definition_keywords :: "string list" where
  "definition_keywords = [''def'', ''class'', ''lambda'']"

definition exception_keywords :: "string list" where
  "exception_keywords = [''try'', ''except'', ''finally'', ''raise'', ''assert'', ''class'']"

definition orchestrates :: "cell \<Rightarrow> bool" where
  "orchestrates c \<longleftrightarrow>
     list_all (\<lambda>s. claimed_operation s \<or> s = pip_install) (code c)
     \<and> list_all (\<lambda>e. imported_from (callee e) \<in> Some ` set external_modules) (cell_calls c)
     \<and> list_all (\<lambda>w. w \<notin> set definition_keywords) (python_words c)"

definition handles_nothing :: "cell \<Rightarrow> bool" where
  "handles_nothing c \<longleftrightarrow> list_all (\<lambda>w. w \<notin> set exception_keywords) (python_words c)"

section \<open>The printed table against the model\<close>

text \<open>
  After the \<^verbatim>\<open>Input\<close> row, the table has for each layer of the model, in order, a
  weight row named by the layer's class and then a data row, named by the layer's
  activation where the cell writes one.
\<close>

definition activation_agrees :: "string \<Rightarrow> expr \<Rightarrow> bool" where
  "activation_agrees a l =
     (case map_of (keyword_args l) ''activation'' of
        Some (Str s) \<Rightarrow> a = s | Some e \<Rightarrow> False | None \<Rightarrow> True)"

fun rows_follow :: "table_row list \<Rightarrow> expr list \<Rightarrow> bool" where
  "rows_follow [] [] = True"
| "rows_follow (Weights k n pct # Data a ds # rs) (l # ls) =
     (k = callee l \<and> activation_agrees a l \<and> rows_follow rs ls)"
| "rows_follow rs ls = False"

definition table_matches_model :: "cell \<Rightarrow> bool" where
  "table_matches_model c =
     (case table_rows c of
        Some (Data opn ds # rs) \<Rightarrow>
          (case model_layers c of
             Some (l # ls) \<Rightarrow> opn = ''Input'' \<and> input_shape l = Some ds \<and> rows_follow rs (l # ls)
           | _ \<Rightarrow> False)
      | _ \<Rightarrow> False)"

definition column_titles :: "string list" where
  "column_titles = [''OPERATION'', ''DATA DIMENSIONS'', ''WEIGHTS(N)'', ''WEIGHTS(%)'']"

definition stdout_table :: "cell \<Rightarrow> bool" where
  "stdout_table c \<longleftrightarrow>
     map stream_name (outputs c) = [''stdout'']
     \<and> table_header c = column_titles
     \<and> table_matches_model c"

fun rename_callee :: "string \<Rightarrow> string \<Rightarrow> expr \<Rightarrow> expr" where
  "rename_callee a b (Call f args kws) = Call (if f = a then b else f) args kws"
| "rename_callee a b e = e"

definition weights_of_kind :: "string \<Rightarrow> cell \<Rightarrow> nat list" where
  "weights_of_kind k c = map snd (filter (\<lambda>r. fst r = k) (printed_weights c))"

section \<open>Running a cell\<close>

text \<open>
  The notebook's own code only sequences statements; evaluating an expression
  (looking up names, constructing layers and models, printing the table), importing a
  name and running a shell command are done by the Python runtime and the libraries
  it loads, which are parameters here. Evaluating an expression either raises an error
  or gives a value and the lines it printed. The kernel's state is its variables and
  the output written so far.
\<close>

record 'v kernel =
  variables :: "string \<Rightarrow> 'v option"
  stdout :: "string list"

record ('v, 'e) runtime =
  evaluate :: "(string \<Rightarrow> 'v option) \<Rightarrow> expr \<Rightarrow> 'e + 'v \<times> string list"
  import_name :: "string \<Rightarrow> string \<Rightarrow> 'e + 'v"
  shell :: "string \<Rightarrow> string list"

text \<open>
  \<^verbatim>\<open>from m import a, b\<close> binds each name in turn and stops at the first that fails.
  An assignment binds the value of its right-hand side; an expression statement
  evaluates its expression and drops the value. A shell command adds what it prints to
  the output. A statement that raises ends the cell: the cells contain nothing that
  could catch the error.
\<close>

fun bind_imports ::
  "('v, 'e) runtime \<Rightarrow> string \<Rightarrow> string list \<Rightarrow> 'v kernel \<Rightarrow> 'e + 'v kernel" where
  "bind_imports rt m [] k = Inr k"
| "bind_imports rt m (n # ns) k =
     (case import_name rt m n of
        Inl err \<Rightarrow> Inl err
      | Inr v \<Rightarrow> bind_imports rt m ns (k\<lparr>variables := (variables k)(n \<mapsto> v)\<rparr>))"

fun exec_stmt :: "('v, 'e) runtime \<Rightarrow> stmt \<Rightarrow> 'v kernel \<Rightarrow> 'e + 'v kernel" where
  "exec_stmt rt (Comment s) k = Inr k"
| "exec_stmt rt Blank k = Inr k"
| "exec_stmt rt (Shell cmd) k = Inr (k\<lparr>stdout := stdout k @ shell rt cmd\<rparr>)"
| "exec_stmt rt (ImportFrom m ns) k = bind_imports rt m ns k"
| "exec_stmt rt (Assign x e) k =
     (case evaluate rt (variables k) e of
        Inl err \<Rightarrow> Inl err
      | Inr r \<Rightarrow> Inr (k\<lparr>variables := (variables k)(x \<mapsto> fst r), stdout := stdout k @ snd r\<rparr>))"
| "exec_stmt rt (Expr e) k =
     (case evaluate rt (variables k) e of
        Inl err \<Rightarrow> Inl err
      | Inr r \<Rightarrow> Inr (k\<lparr>stdout := stdout k @ snd r\<rparr>))"

fun run :: "('v, 'e) runtime \<Rightarrow> stmt list \<Rightarrow> 'v kernel \<Rightarrow> 'e + 'v kernel" where
  "run rt [] k = Inr k"
| "run rt (s # ss) k =
     (case exec_stmt rt s k of Inl err \<Rightarrow> Inl err | Inr k' \<Rightarrow> run rt ss k')"

text \<open>
  What it is for the runtime to raise \<open>err\<close> at a statement.
\<close>

fun fails_in :: "('v, 'e) runtime \<Rightarrow> (string \<Rightarrow> 'v option) \<Rightarrow> stmt \<Rightarrow> 'e \<Rightarrow> bool" where
  "fails_in rt vars (Assign x e) err = (evaluate rt vars e = Inl err)"
| "fails_in rt vars (Expr e) err = (evaluate rt vars e = Inl err)"
| "fails_in rt vars (ImportFrom m ns) err = list_ex (\<lambda>n. import_name rt m n = Inl err) ns"
| "fails_in rt vars s err = False"

definition model_failure_propagates ::
  "('v, 'e) runtime \<Rightarrow> 'v kernel \<Rightarrow> 'e \<Rightarrow> cell \<Rightarrow> bool" where
  "model_failure_propagates rt k err c \<longleftrightarrow>
     (\<forall>x e. (x, e) \<in> set (assignments (code c)) \<longrightarrow>
        evaluate rt (variables k) e = Inl err \<longrightarrow> run rt (code c) k = Inl err)"

text \<open>
  A runtime to run the cells on, which rejects every expression with a
  \<^verbatim>\<open>ValueError\<close>, and a kernel with no variable bound.
\<close>

definition strict_runtime :: "(unit, string) runtime" where
  "strict_runtime =
     \<lparr>evaluate = (\<lambda>vars e. Inl ''ValueError''),
      import_name = (\<lambda>m n. Inr ()),
      shell = (\<lambda>cmd. [])\<rparr>"

definition fresh_kernel :: "unit kernel" where
  "fresh_kernel = \<lparr>variables = (\<lambda>x. None), stdout = []\<rparr>"

section \<open>The abstract syntax agrees with the text\<close>

lemmas cell_defs = cell2_def cell3_def cell5_def cell7_def cell8_def cell9_def cell11_def

lemmas table_defs = table_lines_def table_rows_def parse_row_def split_words_def is_space_def
  emit_def parse_nat_def digit_value_def printed_weights_def printed_dimensions_def

lemmas model_defs = model_layers_def model_weights_def input_shape_def formula_weights_def
  simple_rnn_weights_def lstm_weights_def dense_weights_def

lemma source_is_rendered_code:
  "list_all (\<lambda>c. render (code c) = source c) code_cells"
  unfolding code_cells_def cell_defs render_def
  by (simp add: show_nat.simps digit_char_def)

section \<open>Weight counts\<close>

lemma cell5_weights: "printed_weights cell5 = [(''SimpleRNN'', 1888), (''Dense'', 165)]"
  by (simp add: cell5_def table_defs)

lemma cell7_weights: "printed_weights cell7 = [(''LSTM'', 7552), (''Dense'', 165)]"
  by (simp add: cell7_def table_defs)

lemma cell9_weights:
  "printed_weights cell9 = [(''LSTM'', 7552), (''LSTM'', 8320), (''Dense'', 165)]"
  by (simp add: cell9_def table_defs)

lemma cell11_weights:
  "printed_weights cell11 = [(''GRU'', 5664), (''GRU'', 6240), (''Dense'', 165)]"
  by (simp add: cell11_def table_defs)

lemma cell5_formula: "model_weights cell5 = Some [(''SimpleRNN'', 1888), (''Dense'', 165)]"
  by (simp add: cell5_def model_defs)

lemma cell7_formula: "model_weights cell7 = Some [(''LSTM'', 7552), (''Dense'', 165)]"
  by (simp add: cell7_def model_defs)

lemma cell9_formula:
  "model_weights cell9 = Some [(''LSTM'', 7552), (''LSTM'', 8320), (''Dense'', 165)]"
  by (simp add: cell9_def model_defs)

text \<open>
  C8. The weight counts printed for the SimpleRNN model (cell 5), the LSTM model
  (cell 7) and the stacked LSTM model (cell 9) are exactly what the parameter-count
  formulas give for the layers written in the cell: \<open>u * (d + u + 1)\<close> for SimpleRNN,
  \<open>4 * u * (d + u + 1)\<close> for LSTM, \<open>n * (d + 1)\<close> for Dense; that is 1888, 7552,
  8320 (the second LSTM, on 32 features) and 165.
\<close>

theorem printed_weights_match_formulas:
  "model_weights cell5 = Some (printed_weights cell5)
   \<and> model_weights cell7 = Some (printed_weights cell7)
   \<and> model_weights cell9 = Some (printed_weights cell9)
   \<and> printed_weights cell5 = [(''SimpleRNN'', simple_rnn_weights 32 26), (''Dense'', dense_weights 5 32)]
   \<and> printed_weights cell7 = [(''LSTM'', lstm_weights 32 26), (''Dense'', dense_weights 5 32)]
   \<and> printed_weights cell9 =
        [(''LSTM'', lstm_weights 32 26), (''LSTM'', lstm_weights 32 32), (''Dense'', dense_weights 5 32)]
   \<and> simple_rnn_weights 32 26 = 1888 \<and> lstm_weights 32 26 = 7552
   \<and> lstm_weights 32 32 = 8320 \<and> dense_weights 5 32 = 165"
  by (simp add: cell5_weights cell7_weights cell9_weights cell5_formula cell7_formula
      cell9_formula simple_rnn_weights_def lstm_weights_def dense_weights_def)

section \<open>The printed tables\<close>

lemmas table_defs2 = table_defs table_header_def split_fields_def stdout_table_def
  table_matches_model_def column_titles_def activation_agrees_def

lemma cell5_table: "stdout_table cell5"
  by (simp add: cell5_def table_defs2 model_defs)

lemma cell7_table: "stdout_table cell7"
  by (simp add: cell7_def table_defs2 model_defs)

lemma cell9_table: "stdout_table cell9"
  by (simp add: cell9_def table_defs2 model_defs)

lemma cell11_table: "stdout_table cell11"
  by (simp add: cell11_def table_defs2 model_defs)

lemma no_printer_in_2: "\<not> calls_printer cell2"
  by (simp add: cell2_def calls_printer_def)

lemma no_printer_in_3: "\<not> calls_printer cell3"
  by (simp add: cell3_def calls_printer_def)

lemma no_printer_in_8: "\<not> calls_printer cell8"
  by (simp add: cell8_def calls_printer_def)

lemma printer_in_5: "calls_printer cell5"
  by (simp add: cell5_def calls_printer_def printer_call_def printer_def)

lemma printer_in_7: "calls_printer cell7"
  by (simp add: cell7_def calls_printer_def printer_call_def printer_def)

lemma printer_in_9: "calls_printer cell9"
  by (simp add: cell9_def calls_printer_def printer_call_def printer_def)

lemma printer_in_11: "calls_printer cell11"
  by (simp add: cell11_def calls_printer_def printer_call_def printer_def)

text \<open>
  C1. Every cell that passes a model to the printer has recorded exactly one output,
  written to standard output: a table whose header reads OPERATION, DATA DIMENSIONS,
  WEIGHTS(N), WEIGHTS(%), followed by a blank line and the rows. The rows are the
  \<^verbatim>\<open>Input\<close> row with the model's input shape and then, for each layer of the model
  in order, one row with the layer's name, weight count and weight percentage and one
  row with its activation and output dimensions. Four cells do so: those run third,
  fourth, sixth and seventh.
\<close>

theorem printed_result_is_table:
  "(\<forall>c \<in> set code_cells. calls_printer c \<longrightarrow>
      map stream_name (outputs c) = [''stdout'']
      \<and> table_header c = [''OPERATION'', ''DATA DIMENSIONS'', ''WEIGHTS(N)'', ''WEIGHTS(%)'']
      \<and> table_matches_model c)
   \<and> map execution_count (filter calls_printer code_cells) = [3, 4, 6, 7]"
proof -
  have "\<forall>c \<in> set code_cells. calls_printer c \<longrightarrow> stdout_table c"
    by (simp add: code_cells_def cell5_table cell7_table cell9_table cell11_table
        no_printer_in_2 no_printer_in_3 no_printer_in_8)
  moreover have "map execution_count (filter calls_printer code_cells) = [3, 4, 6, 7]"
    by (simp add: code_cells_def no_printer_in_2 no_printer_in_3 no_printer_in_8
        printer_in_5 printer_in_7 printer_in_9 printer_in_11)
      (simp add: cell5_def cell7_def cell9_def cell11_def)
  ultimately show ?thesis
    by (simp add: stdout_table_def column_titles_def)
qed

theorem printed_result_is_table_witness:
  "cell5 \<in> set code_cells \<and> calls_printer cell5
   \<and> map stream_name (outputs cell5) = [''stdout'']
   \<and> table_header cell5 = [''OPERATION'', ''DATA DIMENSIONS'', ''WEIGHTS(N)'', ''WEIGHTS(%)'']
   \<and> table_matches_model cell5"
  using printed_result_is_table printer_in_5 by (simp add: code_cells_def)

section \<open>GRU against LSTM\<close>

lemma cell9_dimensions: "printed_dimensions cell9 = [[10, 26], [10, 32], [32], [5]]"
  by (simp add: cell9_def table_defs)

lemma cell11_dimensions: "printed_dimensions cell11 = [[10, 26], [10, 32], [32], [5]]"
  by (simp add: cell11_def table_defs)

lemma cell9_layers:
  "model_layers cell9 = Some
    [Call ''LSTM'' [Num 32]
       [(''input_shape'', Tuple [Num 10, Num 26]), (''return_sequences'', Bool True)],
     Call ''LSTM'' [Num 32] [],
     Call ''Dense'' [Num 5] [(''activation'', Str ''softmax'')]]"
  by (simp add: cell9_def model_layers_def)

lemma cell11_layers:
  "model_layers cell11 = Some
    [Call ''GRU'' [Num 32]
       [(''input_shape'', Tuple [Num 10, Num 26]), (''return_sequences'', Bool True)],
     Call ''GRU'' [Num 32] [],
     Call ''Dense'' [Num 5] [(''activation'', Str ''softmax'')]]"
  by (simp add: cell11_def model_layers_def)

text \<open>
  C9. The stacked GRU model of cell 11 is the stacked LSTM model of cell 9 with the
  class name replaced and every argument kept. Its table shows the same data
  dimensions, and each GRU layer's weight count is three quarters of the corresponding
  LSTM layer's: 4 * 5664 = 3 * 7552 and 4 * 6240 = 3 * 8320.
\<close>

theorem gru_replaces_lstm:
  "model_layers cell11 = map_option (map (rename_callee ''LSTM'' ''GRU'')) (model_layers cell9)
   \<and> builds_model cell9
   \<and> printed_dimensions cell11 = printed_dimensions cell9
   \<and> printed_dimensions cell9 = [[10, 26], [10, 32], [32], [5]]
   \<and> weights_of_kind ''GRU'' cell11 = [5664, 6240]
   \<and> weights_of_kind ''LSTM'' cell9 = [7552, 8320]
   \<and> map (\<lambda>n. 4 * n) (weights_of_kind ''GRU'' cell11)
       = map (\<lambda>n. 3 * n) (weights_of_kind ''LSTM'' cell9)"
  by (simp add: cell9_layers cell11_layers cell9_dimensions cell11_dimensions
      cell9_weights cell11_weights weights_of_kind_def builds_model_def)

section \<open>The flow of a model cell\<close>

lemmas shape_defs = stack_ok_def stack_shape_def recurrent_layer_def recurrent_kinds_def
  recurrent_keyword_def model_layers_def

lemmas flow_defs = two_step_flow_def effective_def printer_call_def printer_def

lemma cell2_no_model: "\<not> builds_model cell2"
  by (simp add: cell2_def builds_model_def model_layers_def)

lemma cell3_no_model: "\<not> builds_model cell3"
  by (simp add: cell3_def builds_model_def model_layers_def)

lemma cell5_flow: "stack_ok cell5 \<and> two_step_flow cell5 \<and> \<not> wraps_bidirectional cell5"
  by (simp add: cell5_def shape_defs flow_defs wraps_bidirectional_def)

lemma cell7_flow: "stack_ok cell7 \<and> two_step_flow cell7 \<and> \<not> wraps_bidirectional cell7"
  by (simp add: cell7_def shape_defs flow_defs wraps_bidirectional_def)

lemma cell9_flow: "stack_ok cell9 \<and> two_step_flow cell9 \<and> \<not> wraps_bidirectional cell9"
  by (simp add: cell9_def shape_defs flow_defs wraps_bidirectional_def)

lemma cell11_flow: "stack_ok cell11 \<and> two_step_flow cell11 \<and> \<not> wraps_bidirectional cell11"
  by (simp add: cell11_def shape_defs flow_defs wraps_bidirectional_def)

lemma cell8_flow:
  "builds_model cell8 \<and> stack_ok cell8 \<and> \<not> two_step_flow cell8 \<and> wraps_bidirectional cell8"
  by (simp add: cell8_def builds_model_def shape_defs flow_defs wraps_bidirectional_def)

text \<open>
  C3, as stated, fails at cell 8: the cell builds a model, but its printer call is a
  comment, so the model is never given to the printer.
\<close>

theorem bidirectional_model_breaks_flow:
  "cell8 \<in> set code_cells \<and> builds_model cell8 \<and> \<not> calls_printer cell8 \<and> \<not> follows_flow cell8"
  by (simp add: code_cells_def cell8_flow no_printer_in_8 follows_flow_def)

text \<open>
  C3, amended. Every model the notebook builds is a stack of one or more recurrent
  layers (wrapped in Bidirectional in cell 8) followed by a dense layer with an
  activation. A model without a Bidirectional wrapper is assigned to \<^verbatim>\<open>model\<close> and
  then passed to the printer; the model with the wrapper is not printed.
\<close>

theorem models_follow_flow_unless_bidirectional:
  "\<forall>c \<in> set code_cells. builds_model c \<longrightarrow>
     stack_ok c \<and> (if wraps_bidirectional c then \<not> calls_printer c else two_step_flow c)"
  by (simp add: code_cells_def cell2_no_model cell3_no_model cell5_flow cell7_flow cell8_flow
      cell9_flow cell11_flow no_printer_in_8)

theorem models_follow_flow_witness:
  "cell9 \<in> set code_cells \<and> builds_model cell9 \<and> stack_ok cell9 \<and> two_step_flow cell9"
  using models_follow_flow_unless_bidirectional cell9_flow
  by (simp add: code_cells_def builds_model_def cell9_layers)

section \<open>Configuration of the layers\<close>

lemmas descriptor_defs = descriptors_ok_def consumed_by_sequential_def layer_calls_def
  cell_calls_def layer_descriptor_def recurrent_kinds_def recurrent_keyword_def
  model_layers_def printer_def

lemma cell2_descriptors: "descriptors_ok cell2"
  by (simp add: cell2_def descriptor_defs)

lemma cell3_descriptors: "descriptors_ok cell3"
  by (simp add: cell3_def descriptor_defs)

lemma cell5_descriptors: "descriptors_ok cell5"
  by (simp add: cell5_def descriptor_defs)

lemma cell7_descriptors: "descriptors_ok cell7"
  by (simp add: cell7_def descriptor_defs)

lemma cell8_descriptors: "descriptors_ok cell8"
  by (simp add: cell8_def descriptor_defs)

lemma cell9_descriptors: "descriptors_ok cell9"
  by (simp add: cell9_def descriptor_defs)

lemma cell11_descriptors: "descriptors_ok cell11"
  by (simp add: cell11_def descriptor_defs)

lemma cell8_layer_calls: "length (layer_calls cell8) = 5"
  by (simp add: cell8_def layer_calls_def cell_calls_def printer_def)

text \<open>
  C4. Every layer descriptor written in the notebook is a SimpleRNN, LSTM or GRU with
  a unit count and at most an input shape and a return-sequences flag, a Dense with a
  unit count and at most an activation, or a Bidirectional wrapper around one such
  recurrent layer. Every one of them stands inside the list given to
  \<^verbatim>\<open>Sequential\<close>, whose result is the only thing a cell assigns (to \<^verbatim>\<open>model\<close>): no
  layer is bound to a name or used anywhere else.
\<close>

theorem layer_descriptors_configured:
  "\<forall>c \<in> set code_cells.
     list_all layer_descriptor (layer_calls c) \<and> consumed_by_sequential c"
proof -
  have "\<forall>c \<in> set code_cells. descriptors_ok c"
    by (simp add: code_cells_def cell2_descriptors cell3_descriptors cell5_descriptors
        cell7_descriptors cell8_descriptors cell9_descriptors cell11_descriptors)
  then show ?thesis
    by (simp add: descriptors_ok_def)
qed

theorem layer_descriptors_configured_witness:
  "cell8 \<in> set code_cells \<and> length (layer_calls cell8) = 5
   \<and> list_all layer_descriptor (layer_calls cell8) \<and> consumed_by_sequential cell8"
  using layer_descriptors_configured cell8_layer_calls
  by (simp add: code_cells_def)

section \<open>The bidirectional model\<close>

lemma cell2_not_bidirectional: "\<not> wraps_bidirectional cell2"
  by (simp add: cell2_def wraps_bidirectional_def model_layers_def)

lemma cell3_not_bidirectional: "\<not> wraps_bidirectional cell3"
  by (simp add: cell3_def wraps_bidirectional_def model_layers_def)

lemma cell8_commented_call:
  "printer \<notin> set (map callee (cell_calls cell8))
   \<and> last (code cell8) = Comment ('' '' @ show_expr printer_call)
   \<and> last (source cell8) = ''# '' @ show_expr printer_call
   \<and> outputs cell8 = []"
  by (simp add: cell8_def cell_calls_def printer_call_def printer_def)

text \<open>
  C10. Cell 8 builds the model of Bidirectional(LSTM) layers and does not call the
  printer: its last line is the printer call behind a comment sign, and the cell has
  no recorded output. It is the only cell that builds a model without printing it, and
  the only one that uses the Bidirectional wrapper.
\<close>

theorem bidirectional_never_visualized:
  "builds_model cell8 \<and> wraps_bidirectional cell8
   \<and> \<not> calls_printer cell8
   \<and> printer \<notin> set (map callee (cell_calls cell8))
   \<and> last (code cell8) = Comment ('' '' @ show_expr printer_call)
   \<and> last (source cell8) = ''# '' @ show_expr printer_call
   \<and> outputs cell8 = []
   \<and> filter (\<lambda>c. builds_model c \<and> \<not> calls_printer c) code_cells = [cell8]
   \<and> filter wraps_bidirectional code_cells = [cell8]"
proof -
  have unprinted: "filter (\<lambda>c. builds_model c \<and> \<not> calls_printer c) code_cells = [cell8]"
    by (simp add: code_cells_def cell8_flow no_printer_in_8 printer_in_5 printer_in_7
        printer_in_9 printer_in_11 cell2_no_model cell3_no_model)
  have wrapped: "filter wraps_bidirectional code_cells = [cell8]"
    by (simp add: code_cells_def cell2_not_bidirectional cell3_not_bidirectional cell5_flow
        cell7_flow cell8_flow cell9_flow cell11_flow)
  show ?thesis
    using unprinted wrapped cell8_flow no_printer_in_8 cell8_commented_call by simp
qed

section \<open>What the notebook does\<close>

lemma imports_table:
  "imports_of code_cells =
    [(''Sequential'', ''keras.models''), (''Flatten'', ''keras.layers''),
     (''SimpleRNN'', ''keras.layers''), (''Dense'', ''keras.layers''),
     (''Dropout'', ''keras.layers''), (''LSTM'', ''keras.layers''),
     (''GRU'', ''keras.layers''), (''Bidirectional'', ''keras.layers''),
     (''sequential_model_to_ascii_printout'', ''keras_sequential_ascii'')]"
  by (simp add: imports_of_def code_cells_def cell_defs)

lemmas lexical_defs = python_words_def is_shell_line_def is_space_def idents_def
  is_ident_char_def emit_def

lemmas orchestrate_defs = orchestrates_def claimed_operation_def pip_install_def
  imported_from_def imports_table external_modules_def definition_keywords_def
  cell_calls_def layer_descriptor_def recurrent_kinds_def recurrent_keyword_def
  printer_def lexical_defs

lemma cell2_orchestrates: "orchestrates cell2"
  by (simp add: cell2_def orchestrate_defs)

lemma cell3_orchestrates: "orchestrates cell3"
  by (simp add: cell3_def orchestrate_defs)

lemma cell5_orchestrates: "orchestrates cell5"
  by (simp add: cell5_def orchestrate_defs)

lemma cell7_orchestrates: "orchestrates cell7"
  by (simp add: cell7_def orchestrate_defs)

lemma cell8_orchestrates: "orchestrates cell8"
  by (simp add: cell8_def orchestrate_defs)

lemma cell9_orchestrates: "orchestrates cell9"
  by (simp add: cell9_def orchestrate_defs)

lemma cell11_orchestrates: "orchestrates cell11"
  by (simp add: cell11_def orchestrate_defs)

text \<open>
  C2, as stated, fails at cell 2: the shell command that installs
  \<^verbatim>\<open>keras_sequential_ascii\<close> is neither an import, nor a stacking of layers, nor a
  call of the printer.
\<close>

theorem shell_install_is_a_fourth_operation:
  "cell2 \<in> set code_cells \<and> pip_install \<in> set (code cell2) \<and> \<not> claimed_operation pip_install"
  by (simp add: code_cells_def cell2_def pip_install_def claimed_operation_def)

text \<open>
  C2, amended. Apart from the shell command \<^verbatim>\<open>pip install -q keras_sequential_ascii\<close>,
  every statement of every cell is a comment or blank line, an import from
  \<^verbatim>\<open>keras.models\<close>, \<^verbatim>\<open>keras.layers\<close> or \<^verbatim>\<open>keras_sequential_ascii\<close>, a stacking of
  layer descriptors into a \<^verbatim>\<open>Sequential\<close>, or a call of the printer. Every function
  the notebook calls is a name imported from one of these three modules, so all
  computation is the libraries'. No line uses \<^verbatim>\<open>def\<close>, \<^verbatim>\<open>class\<close> or
  \<^verbatim>\<open>lambda\<close>.
\<close>

theorem notebook_only_orchestrates:
  "\<forall>c \<in> set code_cells.
     (\<forall>s \<in> set (code c). claimed_operation s \<or> s = pip_install)
     \<and> (\<forall>e \<in> set (cell_calls c). imported_from (callee e) \<in> Some ` set external_modules)
     \<and> (\<forall>w \<in> set (python_words c). w \<notin> set definition_keywords)"
proof -
  have "\<forall>c \<in> set code_cells. orchestrates c"
    by (simp add: code_cells_def cell2_orchestrates cell3_orchestrates cell5_orchestrates
        cell7_orchestrates cell8_orchestrates cell9_orchestrates cell11_orchestrates)
  then show ?thesis
    by (simp add: orchestrates_def list_all_iff)
qed

theorem notebook_only_orchestrates_witness:
  "cell5 \<in> set code_cells
   \<and> list_all claimed_operation (code cell5)
   \<and> cell_calls cell5 \<noteq> []
   \<and> list_all (\<lambda>e. imported_from (callee e) \<in> Some ` set external_modules) (cell_calls cell5)
   \<and> ''def'' \<notin> set (python_words cell5)"
proof -
  note claim = notebook_only_orchestrates
  have member: "cell5 \<in> set code_cells"
    by (simp add: code_cells_def)
  from claim member
  have stmts: "\<forall>s \<in> set (code cell5). claimed_operation s \<or> s = pip_install"
    and calls: "\<forall>e \<in> set (cell_calls cell5).
                  imported_from (callee e) \<in> Some ` set external_modules"
    and no_defs: "\<forall>w \<in> set (python_words cell5). w \<notin> set definition_keywords"
    by blast+
  have "pip_install \<notin> set (code cell5)"
    by (simp add: cell5_def pip_install_def)
  with stmts have "list_all claimed_operation (code cell5)"
    by (auto simp add: list_all_iff)
  moreover from calls
  have "list_all (\<lambda>e. imported_from (callee e) \<in> Some ` set external_modules) (cell_calls cell5)"
    by (simp add: list_all_iff)
  moreover have "cell_calls cell5 \<noteq> []"
    by (simp add: cell5_def cell_calls_def)
  moreover from no_defs have "''def'' \<notin> set (python_words cell5)"
    by (auto simp add: definition_keywords_def)
  ultimately show ?thesis
    using member by simp
qed

section \<open>Errors\<close>

lemma bind_imports_failure:
  "bind_imports rt m ns k = Inl err \<Longrightarrow> list_ex (\<lambda>n. import_name rt m n = Inl err) ns"
  by (induction ns arbitrary: k) (auto split: sum.splits)

lemma exec_stmt_failure:
  "exec_stmt rt s k = Inl err \<Longrightarrow> fails_in rt (variables k) s err"
  by (cases s) (auto split: sum.splits dest: bind_imports_failure)

lemma run_failure:
  "run rt ss k = Inl err \<Longrightarrow> \<exists>s \<in> set ss. \<exists>vars. fails_in rt vars s err"
proof (induction ss arbitrary: k)
  case Nil
  then show ?case by simp
next
  case (Cons s ss)
  show ?case
  proof (cases "exec_stmt rt s k")
    case (Inl e)
    with Cons.prems have "e = err" by simp
    with Inl have "fails_in rt (variables k) s err" by (simp add: exec_stmt_failure)
    then show ?thesis by auto
  next
    case (Inr k')
    with Cons.prems have "run rt ss k' = Inl err" by simp
    from Cons.IH [OF this] show ?thesis by auto
  qed
qed

lemma cell2_propagates: "model_failure_propagates rt k err cell2"
  by (simp add: model_failure_propagates_def cell2_def)

lemma cell3_propagates: "model_failure_propagates rt k err cell3"
  by (simp add: model_failure_propagates_def cell3_def)

lemma cell5_propagates: "model_failure_propagates rt k err cell5"
  by (simp add: model_failure_propagates_def cell5_def)

lemma cell7_propagates: "model_failure_propagates rt k err cell7"
  by (simp add: model_failure_propagates_def cell7_def)

lemma cell8_propagates: "model_failure_propagates rt k err cell8"
  by (simp add: model_failure_propagates_def cell8_def)

lemma cell9_propagates: "model_failure_propagates rt k err cell9"
  by (simp add: model_failure_propagates_def cell9_def)

lemma cell11_propagates: "model_failure_propagates rt k err cell11"
  by (simp add: model_failure_propagates_def cell11_def)

lemmas handling_defs = handles_nothing_def exception_keywords_def lexical_defs

lemma cell2_handles_nothing: "handles_nothing cell2"
  by (simp add: cell2_def handling_defs)

lemma cell3_handles_nothing: "handles_nothing cell3"
  by (simp add: cell3_def handling_defs)

lemma cell5_handles_nothing: "handles_nothing cell5"
  by (simp add: cell5_def handling_defs)

lemma cell7_handles_nothing: "handles_nothing cell7"
  by (simp add: cell7_def handling_defs)

lemma cell8_handles_nothing: "handles_nothing cell8"
  by (simp add: cell8_def handling_defs)

lemma cell9_handles_nothing: "handles_nothing cell9"
  by (simp add: cell9_def handling_defs)

lemma cell11_handles_nothing: "handles_nothing cell11"
  by (simp add: cell11_def handling_defs)

text \<open>
  C5. No Python line of the notebook uses \<^verbatim>\<open>try\<close>, \<^verbatim>\<open>except\<close>, \<^verbatim>\<open>finally\<close>,
  \<^verbatim>\<open>raise\<close>, \<^verbatim>\<open>assert\<close> or \<^verbatim>\<open>class\<close>. When the runtime raises an error while
  evaluating the model a cell assigns, running the cell ends with exactly that error;
  and whenever running a cell ends with an error, the runtime raised that very error
  at one of the cell's statements.
\<close>

theorem no_error_handling:
  "(\<forall>c \<in> set code_cells. \<forall>w \<in> set (python_words c). w \<notin> set exception_keywords)
   \<and> (\<forall>c \<in> set code_cells. \<forall>x e. (x, e) \<in> set (assignments (code c)) \<longrightarrow>
         evaluate rt (variables k) e = Inl err \<longrightarrow> run rt (code c) k = Inl err)
   \<and> (\<forall>c \<in> set code_cells. run rt (code c) k = Inl err \<longrightarrow>
         (\<exists>s \<in> set (code c). \<exists>vars. fails_in rt vars s err))"
proof (intro conjI)
  have "\<forall>c \<in> set code_cells. handles_nothing c"
    by (simp add: code_cells_def cell2_handles_nothing cell3_handles_nothing
        cell5_handles_nothing cell7_handles_nothing cell8_handles_nothing
        cell9_handles_nothing cell11_handles_nothing)
  then show "\<forall>c \<in> set code_cells. \<forall>w \<in> set (python_words c). w \<notin> set exception_keywords"
    by (simp add: handles_nothing_def list_all_iff)
next
  have "\<forall>c \<in> set code_cells. model_failure_propagates rt k err c"
    by (simp add: code_cells_def cell2_propagates cell3_propagates cell5_propagates
        cell7_propagates cell8_propagates cell9_propagates cell11_propagates)
  then show "\<forall>c \<in> set code_cells. \<forall>x e. (x, e) \<in> set (assignments (code c)) \<longrightarrow>
         evaluate rt (variables k) e = Inl err \<longrightarrow> run rt (code c) k = Inl err"
    by (simp add: model_failure_propagates_def)
next
  show "\<forall>c \<in> set code_cells. run rt (code c) k = Inl err \<longrightarrow>
         (\<exists>s \<in> set (code c). \<exists>vars. fails_in rt vars s err)"
    by (intro ballI impI) (rule run_failure)
qed

theorem no_error_handling_witness:
  "cell5 \<in> set code_cells
   \<and> (''model'', Call ''Sequential'' [List
          [Call ''SimpleRNN'' [Num 32]
             [(''return_sequences'', Bool False), (''input_shape'', Tuple [Num 10, Num 26])],
           Call ''Dense'' [Num 5] [(''activation'', Str ''softmax'')]]] [])
       \<in> set (assignments (code cell5))
   \<and> run strict_runtime (code cell5) fresh_kernel = Inl ''ValueError''
   \<and> ''try'' \<notin> set (python_words cell5)"
proof -
  let ?e = "Call ''Sequential'' [List
          [Call ''SimpleRNN'' [Num 32]
             [(''return_sequences'', Bool False), (''input_shape'', Tuple [Num 10, Num 26])],
           Call ''Dense'' [Num 5] [(''activation'', Str ''softmax'')]]] []"
  note claim = no_error_handling [of strict_runtime fresh_kernel "''ValueError''"]
  have member: "cell5 \<in> set code_cells"
    by (simp add: code_cells_def)
  have assigned: "(''model'', ?e) \<in> set (assignments (code cell5))"
    by (simp add: cell5_def)
  have rejected: "evaluate strict_runtime (variables fresh_kernel) ?e = Inl ''ValueError''"
    by (simp add: strict_runtime_def)
  from claim member assigned rejected
  have failed: "run strict_runtime (code cell5) fresh_kernel = Inl ''ValueError''"
    by blast
  from claim member have "\<forall>w \<in> set (python_words cell5). w \<notin> set exception_keywords"
    by blast
  then have "''try'' \<notin> set (python_words cell5)"
    by (auto simp add: exception_keywords_def)
  with member assigned failed show ?thesis
    by simp
qed

end
